theory Spec2Isabelle
  imports Complex_Main
begin

section \<open>Data model of the plane battle game\<close>

text \<open>
  The game component keeps its entities in plain mutable objects whose fields are
  JavaScript numbers. Numbers are modelled as exact rationals: every constant of the
  program is a decimal fraction, and the properties below depend on comparisons and
  sums of such constants only, not on the rounding of binary floating point.

  The interfaces \<open>Player\<close>, \<open>Bullet\<close>, \<open>Enemy\<close>, \<open>PowerUp\<close> and \<open>Explosion\<close> share the
  fields \<open>x\<close>, \<open>y\<close>, \<open>width\<close>, \<open>height\<close>, \<open>speed\<close>, \<open>health\<close>, \<open>maxHealth\<close>; the shared
  fields are declared once and the interfaces extend them. The fields \<open>x\<close> and \<open>y\<close> are
  named \<open>pos_x\<close> and \<open>pos_y\<close>, the two \<open>type\<close> fields \<open>etype\<close> and \<open>ptype\<close>, and the
  bullet's \<open>size\<close> field \<open>bsize\<close>.
\<close>

type_synonym number = rat

record Point =
  pos_x :: number
  pos_y :: number

record Rect = Point +
  width :: number
  height :: number

record Mover = Rect +
  speed :: number

record Unit = Mover +
  health :: number
  maxHealth :: number

record Player = Unit +
  bulletSize :: number
  fireRate :: number
  bulletCount :: number
  lastShot :: number

record Bullet = Mover +
  damage :: number
  bsize :: number

datatype EnemyType = Small | Medium | Large

record Enemy = Unit +
  etype :: EnemyType

datatype PowerUpType = Size | Rate | Count

text \<open>
  The variant of a power-up is read from a three-element array by a computed index;
  an index outside the array gives \<open>undefined\<close> in JavaScript, which is \<open>None\<close> here.
\<close>

record PowerUp = Mover +
  ptype :: "PowerUpType option"

record Explosion = Point +
  radius :: number
  maxRadius :: number
  opacity :: number

datatype GameState = Start | Playing | Paused | GameOver

definition CANVAS_WIDTH :: number where
  "CANVAS_WIDTH = 600"

definition CANVAS_HEIGHT :: number where
  "CANVAS_HEIGHT = 800"

text \<open>
  The state of the component: the React state \<open>gameState\<close> and \<open>score\<close>, and the contents
  of the refs. \<open>draws\<close> counts the calls of \<open>Math.random()\<close> made so far in the running
  tick, and \<open>submitted\<close> records the arguments of the calls of \<open>updateHighScore\<close>, in
  order. The React state \<open>health\<close>, \<open>highScore\<close> and \<open>isNewRecord\<close> is used for display
  only and is left out, as is all drawing.
\<close>

record Game =
  gameState :: GameState
  score :: number
  player :: Player
  bullets :: "Bullet list"
  enemies :: "Enemy list"
  powerUps :: "PowerUp list"
  explosions :: "Explosion list"
  draws :: nat
  submitted :: "number list"

text \<open>
  What a tick receives from outside: the timestamp of the animation frame, the keys
  held down, and the values that the successive calls of \<open>Math.random()\<close> return
  during the tick (the \<open>k\<close>-th call returns \<open>random k\<close>).
\<close>

record Input =
  timestamp :: number
  keys :: "string \<Rightarrow> bool"
  random :: "nat \<Rightarrow> number"

section \<open>Start and reset\<close>

definition initialPlayer :: Player where
  "initialPlayer =
     \<lparr>pos_x = CANVAS_WIDTH / 2 - 25, pos_y = CANVAS_HEIGHT - 100, width = 50, height = 50,
      speed = 6, health = 100, maxHealth = 100,
      bulletSize = 1, fireRate = 200, bulletCount = 1, lastShot = 0\<rparr>"

definition initialGame :: Game where
  "initialGame =
     \<lparr>gameState = Start, score = 0, player = initialPlayer, bullets = [], enemies = [],
      powerUps = [], explosions = [], draws = 0, submitted = []\<rparr>"

definition resetGame :: "Game \<Rightarrow> Game" where
  "resetGame g =
     g\<lparr>player := initialPlayer, bullets := [], enemies := [], powerUps := [],
       explosions := [], score := 0\<rparr>"

definition startGame :: "Game \<Rightarrow> Game" where
  "startGame g = (resetGame g)\<lparr>gameState := Playing\<rparr>"

section \<open>Filtering with a callback that has effects\<close>

text \<open>
  Every pass of the tick is \<open>array.filter(callback)\<close> with a callback that changes the
  element, the player, the other arrays and the score while it decides. \<open>filterS\<close> runs
  such a callback over a list from left to right, threading the state: the callback
  returns the element as it is kept (\<open>Some\<close>) or drops it (\<open>None\<close>).
\<close>

fun filterS :: "('a \<Rightarrow> 's \<Rightarrow> 'a option \<times> 's) \<Rightarrow> 'a list \<Rightarrow> 's \<Rightarrow> 'a list \<times> 's" where
  "filterS f [] s = ([], s)"
| "filterS f (a # as) s =
     (case f a s of
        (r, s') \<Rightarrow>
          (case filterS f as s' of
             (rs, s'') \<Rightarrow> ((case r of None \<Rightarrow> rs | Some a' \<Rightarrow> a' # rs), s'')))"

section \<open>Collision test\<close>

text \<open>
  The AABB test is written out three times in \<open>updateGame\<close> (player and enemy, player
  and power-up, bullet and enemy), each time with the same four comparisons.
\<close>

definition intersects :: "'a Rect_scheme \<Rightarrow> 'b Rect_scheme \<Rightarrow> bool" where
  "intersects a b =
     (pos_x a < pos_x b + width b \<and> pos_x a + width a > pos_x b \<and>
      pos_y a < pos_y b + height b \<and> pos_y a + height a > pos_y b)"

section \<open>Spawning\<close>

definition spawnEnemy :: "(nat \<Rightarrow> number) \<Rightarrow> Game \<Rightarrow> Game" where
  "spawnEnemy rnd g =
     (let type = rnd (draws g) in
      if type < 6 / 10 then
        g\<lparr>enemies := enemies g @
             [\<lparr>pos_x = rnd (draws g + 1) * (CANVAS_WIDTH - 40), pos_y = - 40,
               width = 40, height = 40, speed = 2 + rnd (draws g + 2) * (3 / 2),
               health = 20, maxHealth = 20, etype = Small\<rparr>],
          draws := draws g + 3\<rparr>
      else if type < 9 / 10 then
        g\<lparr>enemies := enemies g @
             [\<lparr>pos_x = rnd (draws g + 1) * (CANVAS_WIDTH - 60), pos_y = - 60,
               width = 60, height = 60, speed = 3 / 2 + rnd (draws g + 2) * (1 / 2),
               health = 40, maxHealth = 40, etype = Medium\<rparr>],
          draws := draws g + 3\<rparr>
      else
        g\<lparr>enemies := enemies g @
             [\<lparr>pos_x = rnd (draws g + 1) * (CANVAS_WIDTH - 80), pos_y = - 80,
               width = 80, height = 80, speed = 1,
               health = 80, maxHealth = 80, etype = Large\<rparr>],
          draws := draws g + 2\<rparr>)"

definition types :: "PowerUpType list" where
  "types = [Size, Rate, Count]"

definition index :: "'a list \<Rightarrow> int \<Rightarrow> 'a option" where
  "index xs i = (if 0 \<le> i \<and> i < int (length xs) then Some (xs ! nat i) else None)"

definition spawnPowerUp :: "(nat \<Rightarrow> number) \<Rightarrow> number \<Rightarrow> number \<Rightarrow> Game \<Rightarrow> Game" where
  "spawnPowerUp rnd x y g =
     (if rnd (draws g) > 3 / 10 then g\<lparr>draws := draws g + 1\<rparr>
      else
        let type = index types \<lfloor>rnd (draws g + 1) * of_nat (length types)\<rfloor> in
        g\<lparr>powerUps := powerUps g @
             [\<lparr>pos_x = x - 20, pos_y = y, width = 40, height = 40, speed = 2,
               ptype = type\<rparr>],
          draws := draws g + 2\<rparr>)"

section \<open>Shooting\<close>

text \<open>
  The loop \<open>for (let i = 0; i < player.bulletCount; i++)\<close> runs once for every natural
  number below \<open>bulletCount\<close>.
\<close>

definition volley :: "Player \<Rightarrow> Bullet list" where
  "volley p =
     (let bulletWidth = 6 * bulletSize p;
          bulletHeight = 12 * bulletSize p;
          totalWidth = bulletCount p * bulletWidth;
          startX = pos_x p + width p / 2 - totalWidth / 2 + bulletWidth / 2
      in map (\<lambda>i. \<lparr>pos_x = startX + of_nat i * bulletWidth * (3 / 2), pos_y = pos_y p,
                    width = bulletWidth, height = bulletHeight, speed = 10,
                    damage = 10 * bulletSize p, bsize = bulletSize p\<rparr>)
           [0 ..< nat \<lceil>bulletCount p\<rceil>])"

definition shootBullet :: "number \<Rightarrow> Game \<Rightarrow> Game" where
  "shootBullet ts g =
     (if ts - lastShot (player g) < fireRate (player g) then g
      else g\<lparr>player := (player g)\<lparr>lastShot := ts\<rparr>,
             bullets := bullets g @ volley (player g)\<rparr>)"

section \<open>The passes of a tick\<close>

definition movePlayer :: "(string \<Rightarrow> bool) \<Rightarrow> Player \<Rightarrow> Player" where
  "movePlayer ks p =
     (let p1 = (if ks ''ArrowLeft'' \<or> ks ''KeyA''
                then p\<lparr>pos_x := max 0 (pos_x p - speed p)\<rparr> else p);
          p2 = (if ks ''ArrowRight'' \<or> ks ''KeyD''
                then p1\<lparr>pos_x := min (CANVAS_WIDTH - width p1) (pos_x p1 + speed p1)\<rparr> else p1);
          p3 = (if ks ''ArrowUp'' \<or> ks ''KeyW''
                then p2\<lparr>pos_y := max 0 (pos_y p2 - speed p2)\<rparr> else p2)
      in if ks ''ArrowDown'' \<or> ks ''KeyS''
         then p3\<lparr>pos_y := min (CANVAS_HEIGHT - height p3) (pos_y p3 + speed p3)\<rparr> else p3)"

definition moveBullets :: "Game \<Rightarrow> Game" where
  "moveBullets g =
     g\<lparr>bullets := filter (\<lambda>b. pos_y b > - height b)
                     (map (\<lambda>b. b\<lparr>pos_y := pos_y b - speed b\<rparr>) (bullets g))\<rparr>"

definition rollEnemy :: "(nat \<Rightarrow> number) \<Rightarrow> number \<Rightarrow> Game \<Rightarrow> Game" where
  "rollEnemy rnd score0 g =
     (if rnd (draws g) < 12 / 1000 + score0 * (5 / 100000)
      then spawnEnemy rnd (g\<lparr>draws := draws g + 1\<rparr>)
      else g\<lparr>draws := draws g + 1\<rparr>)"

text \<open>The callback of the enemy pass: move, test against the player, leave the screen.\<close>

definition enemyStep :: "(nat \<Rightarrow> number) \<Rightarrow> Enemy \<Rightarrow> Game \<Rightarrow> Enemy option \<times> Game" where
  "enemyStep rnd e0 g =
     (let enemy = e0\<lparr>pos_y := pos_y e0 + speed e0\<rparr> in
      if intersects (player g) enemy then
        (None,
         spawnPowerUp rnd (pos_x enemy + width enemy / 2) (pos_y enemy + height enemy / 2)
           (g\<lparr>player := (player g)\<lparr>health := health (player g) - 20\<rparr>,
              explosions := explosions g @
                [\<lparr>pos_x = pos_x enemy + width enemy / 2,
                  pos_y = pos_y enemy + height enemy / 2,
                  radius = 0, maxRadius = 50, opacity = 1\<rparr>]\<rparr>))
      else (if pos_y enemy < CANVAS_HEIGHT + height enemy then Some enemy else None, g))"

definition updateEnemies :: "(nat \<Rightarrow> number) \<Rightarrow> Game \<Rightarrow> Game" where
  "updateEnemies rnd g =
     (case filterS (enemyStep rnd) (enemies g) g of (es, g') \<Rightarrow> g'\<lparr>enemies := es\<rparr>)"

definition applyPowerUp :: "PowerUp \<Rightarrow> Player \<Rightarrow> Player" where
  "applyPowerUp powerUp p =
     (if ptype powerUp = Some Size then p\<lparr>bulletSize := min 2 (bulletSize p + 3 / 10)\<rparr>
      else if ptype powerUp = Some Rate then p\<lparr>fireRate := max 50 (fireRate p - 30)\<rparr>
      else if ptype powerUp = Some Count then p\<lparr>bulletCount := min 5 (bulletCount p + 1)\<rparr>
      else p)"

definition powerUpStep :: "PowerUp \<Rightarrow> Game \<Rightarrow> PowerUp option \<times> Game" where
  "powerUpStep u0 g =
     (let powerUp = u0\<lparr>pos_y := pos_y u0 + speed u0\<rparr> in
      if intersects (player g) powerUp
      then (None, g\<lparr>player := applyPowerUp powerUp (player g)\<rparr>)
      else (if pos_y powerUp < CANVAS_HEIGHT + height powerUp then Some powerUp else None, g))"

definition updatePowerUps :: "Game \<Rightarrow> Game" where
  "updatePowerUps g =
     (case filterS powerUpStep (powerUps g) g of (us, g') \<Rightarrow> g'\<lparr>powerUps := us\<rparr>)"

definition points :: "EnemyType \<Rightarrow> number" where
  "points t = (if t = Small then 10 else if t = Medium then 25 else 50)"

text \<open>
  The callback of the inner filter of the bullet pass, for one bullet and one enemy.
  The state it threads is the local flag \<open>bulletHit\<close> and the game.
\<close>

definition hitEnemy ::
  "(nat \<Rightarrow> number) \<Rightarrow> Bullet \<Rightarrow> Enemy \<Rightarrow> bool \<times> Game \<Rightarrow> Enemy option \<times> bool \<times> Game" where
  "hitEnemy rnd bullet e0 st =
     (case st of (bulletHit, g) \<Rightarrow>
        if intersects bullet e0 then
          let enemy = e0\<lparr>health := health e0 - damage bullet\<rparr> in
          if health enemy \<le> 0 then
            (None, True,
             (spawnPowerUp rnd (pos_x enemy + width enemy / 2) (pos_y enemy + height enemy / 2)
                (g\<lparr>explosions := explosions g @
                     [\<lparr>pos_x = pos_x enemy + width enemy / 2,
                       pos_y = pos_y enemy + height enemy / 2,
                       radius = 0, maxRadius = width enemy, opacity = 1\<rparr>]\<rparr>))
             \<lparr>score := score g + points (etype enemy)\<rparr>)
          else (Some enemy, True, g)
        else (Some e0, bulletHit, g))"

definition bulletStep :: "(nat \<Rightarrow> number) \<Rightarrow> Bullet \<Rightarrow> Game \<Rightarrow> Bullet option \<times> Game" where
  "bulletStep rnd bullet g =
     (case filterS (hitEnemy rnd bullet) (enemies g) (False, g) of
        (es, bulletHit, g') \<Rightarrow>
          (if bulletHit then None else Some bullet, g'\<lparr>enemies := es\<rparr>))"

definition bulletCollisions :: "(nat \<Rightarrow> number) \<Rightarrow> Game \<Rightarrow> Game" where
  "bulletCollisions rnd g =
     (case filterS (bulletStep rnd) (bullets g) g of (bs, g') \<Rightarrow> g'\<lparr>bullets := bs\<rparr>)"

definition updateExplosions :: "Game \<Rightarrow> Game" where
  "updateExplosions g =
     g\<lparr>explosions := filter (\<lambda>ex. opacity ex > 0)
                        (map (\<lambda>ex. ex\<lparr>radius := radius ex + 3, opacity := opacity ex - 3 / 100\<rparr>)
                           (explosions g))\<rparr>"

section \<open>The tick\<close>

text \<open>
  \<open>updateGame\<close> is a closure over the React state of the render that created it: the
  \<open>score\<close> it reads, for the spawn probability and for \<open>updateHighScore(score)\<close>, is the
  value at the start of the tick. \<open>setScore(prev => prev + points)\<close> changes the state
  that the next render sees. The canvas and its context are taken to exist.
\<close>

definition updateGame :: "Input \<Rightarrow> Game \<Rightarrow> Game" where
  "updateGame inp g =
     (if gameState g \<noteq> Playing then g
      else
        let score0 = score g;
            g1 = g\<lparr>player := movePlayer (keys inp) (player g), draws := 0\<rparr>;
            g2 = shootBullet (timestamp inp) g1;
            g3 = moveBullets g2;
            g4 = rollEnemy (random inp) score0 g3;
            g5 = updateEnemies (random inp) g4;
            g6 = updatePowerUps g5;
            g7 = bulletCollisions (random inp) g6;
            g8 = updateExplosions g7
        in if health (player g8) \<le> 0
           then g8\<lparr>gameState := GameOver, submitted := submitted g8 @ [score0]\<rparr>
           else g8)"

text \<open>
  The events of a game: an animation frame, or a click on the start button, which is
  rendered on the start screen and on the game-over screen only.
\<close>

datatype Event = Tick Input | StartGame

definition step :: "Event \<Rightarrow> Game \<Rightarrow> Game" where
  "step ev g =
     (case ev of
        Tick inp \<Rightarrow> updateGame inp g
      | StartGame \<Rightarrow> (if gameState g = Start \<or> gameState g = GameOver then startGame g else g))"

fun run :: "Event list \<Rightarrow> Game \<Rightarrow> Game" where
  "run [] g = g"
| "run (ev # evs) g = run evs (step ev g)"

inductive reachable :: "Game \<Rightarrow> bool" where
  reachable_initial: "reachable initialGame"
| reachable_step: "reachable g \<Longrightarrow> reachable (step ev g)"

section \<open>The high-score route\<close>

text \<open>
  The route handlers read and write the table \<open>gameScore\<close> through the database client.
  A row of the table is represented by its \<open>score\<close> column and the table by the list of
  its rows in the order of their creation; \<open>findFirst\<close> with \<open>orderBy: {score: 'desc'}\<close>
  returns a row with the greatest score, or \<open>null\<close> on the empty table. Failures of the
  database itself are not modelled.
\<close>

datatype json =
  JNull | JBool bool | JNum number | JStr string | JArr "json list" | JObj "(string \<times> json) list"

datatype Response =
  HighScore number
| Updated number bool
| Failure nat string

definition findFirstDesc :: "number list \<Rightarrow> number option" where
  "findFirstDesc rows = (case rows of [] \<Rightarrow> None | r # rs \<Rightarrow> Some (fold max rs r))"

definition create :: "number \<Rightarrow> number list \<Rightarrow> number list" where
  "create s rows = rows @ [s]"

definition GET :: "number list \<Rightarrow> Response" where
  "GET rows =
     (case findFirstDesc rows of
        None \<Rightarrow> HighScore 0
      | Some s \<Rightarrow> HighScore (if s \<noteq> 0 then s else 0))"

text \<open>
  \<open>const { score } = body\<close>: destructuring \<open>null\<close> throws, an object gives the value of
  its last \<open>score\<close> member, and every other value, or an object without the member,
  gives \<open>undefined\<close>.
\<close>

datatype Property = Throws | Undefined | Value json

definition scoreOf :: "json \<Rightarrow> Property" where
  "scoreOf body =
     (case body of
        JNull \<Rightarrow> Throws
      | JObj members \<Rightarrow> (case map_of (rev members) ''score'' of None \<Rightarrow> Undefined | Some v \<Rightarrow> Value v)
      | _ \<Rightarrow> Undefined)"

text \<open>
  The request body is \<open>None\<close> when \<open>request.json()\<close> rejects. The handler returns its
  response and the table as it leaves it.
\<close>

definition POST :: "json option \<Rightarrow> number list \<Rightarrow> Response \<times> number list" where
  "POST request rows =
     (case request of
        None \<Rightarrow> (Failure 500 ''Failed to update high score'', rows)
      | Some body \<Rightarrow>
          (case scoreOf body of
             Throws \<Rightarrow> (Failure 500 ''Failed to update high score'', rows)
           | Undefined \<Rightarrow> (Failure 400 ''Invalid score'', rows)
           | Value v \<Rightarrow>
               (case v of
                  JNum s \<Rightarrow>
                    if s < 0 then (Failure 400 ''Invalid score'', rows)
                    else
                      (case findFirstDesc rows of
                         None \<Rightarrow> (Updated s True, create s rows)
                       | Some currentHighScore \<Rightarrow>
                           if s > currentHighScore then (Updated s True, create s rows)
                           else (Updated currentHighScore False, rows))
                | _ \<Rightarrow> (Failure 400 ''Invalid score'', rows))))"

section \<open>Notions used to state the properties\<close>

text \<open>An enemy after the move of a tick, and the explosion placed at an enemy's centre.\<close>

definition moved :: "Enemy \<Rightarrow> Enemy" where
  "moved e = e\<lparr>pos_y := pos_y e + speed e\<rparr>"

definition explosionAt :: "number \<Rightarrow> Enemy \<Rightarrow> Explosion" where
  "explosionAt r e =
     \<lparr>pos_x = pos_x e + width e / 2, pos_y = pos_y e + height e / 2,
      radius = 0, maxRadius = r, opacity = 1\<rparr>"

text \<open>What one bullet leaves of one enemy: nothing, the damaged enemy, or the enemy.\<close>

definition struck :: "Bullet \<Rightarrow> Enemy \<Rightarrow> Enemy list" where
  "struck b e =
     (if intersects b e
      then (if health e - damage b \<le> 0 then [] else [e\<lparr>health := health e - damage b\<rparr>])
      else [e])"

section \<open>Concrete states used as examples\<close>

text \<open>A running game with one \<open>count\<close> power-up about to touch the player.\<close>

definition pickupGame :: Game where
  "pickupGame =
     (startGame initialGame)
       \<lparr>powerUps := [\<lparr>pos_x = 280, pos_y = 690, width = 40, height = 40, speed = 2,
                      ptype = Some Count\<rparr>]\<rparr>"

text \<open>A running game with one large enemy at the player's position.\<close>

definition largeEnemy :: Enemy where
  "largeEnemy =
     \<lparr>pos_x = 275, pos_y = 700, width = 80, height = 80, speed = 1,
      health = 80, maxHealth = 80, etype = Large\<rparr>"

definition crashGame :: Game where
  "crashGame = (startGame initialGame)\<lparr>enemies := [largeEnemy]\<rparr>"

text \<open>
  A running game with one bullet of the default size whose rectangle overlaps two small
  enemies that overlap each other.
\<close>

definition smallEnemyAt :: "number \<Rightarrow> number \<Rightarrow> Enemy" where
  "smallEnemyAt x y =
     \<lparr>pos_x = x, pos_y = y, width = 40, height = 40, speed = 2,
      health = 20, maxHealth = 20, etype = Small\<rparr>"

definition bulletAt :: "number \<Rightarrow> number \<Rightarrow> Bullet" where
  "bulletAt x y =
     \<lparr>pos_x = x, pos_y = y, width = 6, height = 12, speed = 10, damage = 10, bsize = 1\<rparr>"

definition doubleHitGame :: Game where
  "doubleHitGame =
     (startGame initialGame)
       \<lparr>bullets := [bulletAt 125 130],
        enemies := [smallEnemyAt 100 100, smallEnemyAt 120 100]\<rparr>"

definition noRandom :: "nat \<Rightarrow> number" where
  "noRandom k = 1 / 2"

definition zeroRandom :: "nat \<Rightarrow> number" where
  "zeroRandom k = 0"

text \<open>
  A game from the start screen on, with frames 16 ms apart. \<open>tape xs\<close> returns the values
  \<open>xs\<close> to the first calls of \<open>Math.random()\<close> in a tick and 0.5 afterwards, so that the
  empty tape spawns nothing. The values \<open>[0, 0, x / 560, 0]\<close> spawn a small enemy of speed
  2 at the horizontal position \<open>x\<close>.

  The player flies to the top of the canvas in 117 frames. In each of the next four
  frames an enemy is spawned on the player. Then an enemy is spawned to the right of the
  player, the player flies to the right for twelve frames, and in the frame in which
  the player reaches that enemy another enemy is spawned on the player.
\<close>

definition tape :: "number list \<Rightarrow> nat \<Rightarrow> number" where
  "tape xs k = (if k < length xs then xs ! k else 1 / 2)"

definition frame :: "(string \<Rightarrow> bool) \<Rightarrow> number list \<Rightarrow> nat \<Rightarrow> Event" where
  "frame ks xs i = Tick \<lparr>timestamp = 16 * of_nat i, keys = ks, random = tape xs\<rparr>"

definition approach :: "Event list" where
  "approach =
     StartGame # map (frame (\<lambda>k. k = ''ArrowUp'') []) [1 ..< 118]
     @ map (frame (\<lambda>k. False) [0, 0, 275 / 560, 0]) [118 ..< 122]
     @ [frame (\<lambda>k. False) [0, 0, 400 / 560, 0] 122]
     @ map (frame (\<lambda>k. k = ''ArrowRight'') []) [123 ..< 135]"

definition lastFrame :: Event where
  "lastFrame = frame (\<lambda>k. k = ''ArrowRight'') [0, 0, 353 / 560, 0] 135"

text \<open>The state that \<open>approach\<close> leads to, from the start screen.\<close>

definition beforeCrashes :: Game where
  "beforeCrashes =
     \<lparr>gameState = Playing, score = 0,
      player =
        \<lparr>pos_x = 347, pos_y = 0, width = 50, height = 50, speed = 6,
         health = 20, maxHealth = 100, bulletSize = 1, fireRate = 200,
         bulletCount = 1, lastShot = 2080\<rparr>,
      bullets = [],
      enemies =
        [\<lparr>pos_x = 400, pos_y = - 14, width = 40, height = 40, speed = 2,
          health = 20, maxHealth = 20, etype = Small\<rparr>],
      powerUps = [],
      explosions =
        [\<lparr>pos_x = 295, pos_y = - 18, radius = 51, maxRadius = 50, opacity = 49 / 100\<rparr>,
         \<lparr>pos_x = 295, pos_y = - 18, radius = 48, maxRadius = 50, opacity = 13 / 25\<rparr>,
         \<lparr>pos_x = 295, pos_y = - 18, radius = 45, maxRadius = 50, opacity = 11 / 20\<rparr>,
         \<lparr>pos_x = 295, pos_y = - 18, radius = 42, maxRadius = 50, opacity = 29 / 50\<rparr>],
      draws = 1, submitted = []\<rparr>"

text \<open>
  A second game from the start screen on. The player flies up for 100 frames and then
  stays. In the frames 50 to 54 five enemies are spawned to the left of the column of
  the player's bullets, so that each reaches the player, one per frame from frame 100
  on. In frame 97 an enemy is spawned in the column of the bullets. \<open>ascent\<close> ends after
  frame 103, and \<open>finalFrame\<close> is frame 104.
\<close>

definition ascent :: "Event list" where
  "ascent =
     StartGame # map (frame (\<lambda>k. k = ''ArrowUp'') []) [1 ..< 50]
     @ map (frame (\<lambda>k. k = ''ArrowUp'') [0, 0, 255 / 560, 0]) [50 ..< 55]
     @ map (frame (\<lambda>k. k = ''ArrowUp'') []) [55 ..< 97]
     @ [frame (\<lambda>k. k = ''ArrowUp'') [0, 0, 290 / 560, 0] 97]
     @ map (frame (\<lambda>k. k = ''ArrowUp'') []) [98 ..< 101]
     @ map (frame (\<lambda>k. False) []) [101 ..< 104]"

definition finalFrame :: Event where
  "finalFrame = frame (\<lambda>k. False) [] 104"

text \<open>
  The state that \<open>ascent\<close> leads to: the player has 20 health left, the last of the five
  enemies is about to touch the player, and a bullet is about to hit the enemy in the
  column, which has 10 health left.
\<close>

definition beforeGameOver :: Game where
  "beforeGameOver =
     \<lparr>gameState = Playing, score = 0,
      player =
        \<lparr>pos_x = 275, pos_y = 100, width = 50, height = 50, speed = 6,
         health = 20, maxHealth = 100, bulletSize = 1, fireRate = 200,
         bulletCount = 1, lastShot = 1456\<rparr>,
      bullets =
        [\<lparr>pos_x = 300, pos_y = 24, width = 6, height = 12, speed = 10,
          damage = 10, bsize = 1\<rparr>],
      enemies =
        [\<lparr>pos_x = 255, pos_y = 60, width = 40, height = 40, speed = 2,
          health = 20, maxHealth = 20, etype = Small\<rparr>,
         \<lparr>pos_x = 290, pos_y = - 26, width = 40, height = 40, speed = 2,
          health = 10, maxHealth = 20, etype = Small\<rparr>],
      powerUps = [],
      explosions =
        [\<lparr>pos_x = 275, pos_y = 82, radius = 12, maxRadius = 50, opacity = 22 / 25\<rparr>,
         \<lparr>pos_x = 275, pos_y = 82, radius = 9, maxRadius = 50, opacity = 91 / 100\<rparr>,
         \<lparr>pos_x = 275, pos_y = 82, radius = 6, maxRadius = 50, opacity = 47 / 50\<rparr>,
         \<lparr>pos_x = 275, pos_y = 82, radius = 3, maxRadius = 50, opacity = 97 / 100\<rparr>],
      draws = 2, submitted = []\<rparr>"

section \<open>General facts about the passes\<close>

lemma filterS_Cons_fst:
  "fst (filterS f (a # as) s) =
     (case fst (f a s) of
        None \<Rightarrow> fst (filterS f as (snd (f a s)))
      | Some a' \<Rightarrow> a' # fst (filterS f as (snd (f a s))))"
  by (cases "f a s"; cases "filterS f as (snd (f a s))") (simp split: option.splits)

lemma filterS_Cons_snd:
  "snd (filterS f (a # as) s) = snd (filterS f as (snd (f a s)))"
  by (simp split: prod.splits)

lemma filterS_preserves:
  assumes "\<And>a s. pr (snd (f a s)) = pr s"
  shows "pr (snd (filterS f as s)) = pr s"
proof (induction as arbitrary: s)
  case Nil
  show ?case by simp
next
  case (Cons a as)
  have "pr (snd (filterS f (a # as) s)) = pr (snd (filterS f as (snd (f a s))))"
    by (simp only: filterS_Cons_snd)
  also have "\<dots> = pr (snd (f a s))"
    by (rule Cons.IH)
  also have "\<dots> = pr s"
    by (rule assms)
  finally show ?case .
qed

lemma moved_fields [simp]:
  "pos_x (moved e) = pos_x e" "width (moved e) = width e" "height (moved e) = height e"
  "pos_y (moved e) = pos_y e + speed e" "health (moved e) = health e"
  by (simp_all add: moved_def)

lemma intersects_health [simp]:
  "intersects (p\<lparr>health := h\<rparr>) e = intersects p e"
  by (simp add: intersects_def)

lemma spawnPowerUp_frame [simp]:
  "player (spawnPowerUp rnd x y g) = player g"
  "explosions (spawnPowerUp rnd x y g) = explosions g"
  "enemies (spawnPowerUp rnd x y g) = enemies g"
  "bullets (spawnPowerUp rnd x y g) = bullets g"
  "score (spawnPowerUp rnd x y g) = score g"
  "gameState (spawnPowerUp rnd x y g) = gameState g"
  "submitted (spawnPowerUp rnd x y g) = submitted g"
  by (simp_all add: spawnPowerUp_def Let_def)

lemma spawnEnemy_frame [simp]:
  "player (spawnEnemy rnd g) = player g"
  "gameState (spawnEnemy rnd g) = gameState g"
  "submitted (spawnEnemy rnd g) = submitted g"
  "score (spawnEnemy rnd g) = score g"
  by (simp_all add: spawnEnemy_def Let_def)

lemma rollEnemy_frame [simp]:
  "player (rollEnemy rnd s g) = player g"
  "gameState (rollEnemy rnd s g) = gameState g"
  "submitted (rollEnemy rnd s g) = submitted g"
  "score (rollEnemy rnd s g) = score g"
  by (simp_all add: rollEnemy_def)

lemma shootBullet_frame [simp]:
  "health (player (shootBullet t g)) = health (player g)"
  "maxHealth (player (shootBullet t g)) = maxHealth (player g)"
  "gameState (shootBullet t g) = gameState g"
  "submitted (shootBullet t g) = submitted g"
  "score (shootBullet t g) = score g"
  by (simp_all add: shootBullet_def)

lemma moveBullets_frame [simp]:
  "player (moveBullets g) = player g"
  "gameState (moveBullets g) = gameState g"
  "submitted (moveBullets g) = submitted g"
  "score (moveBullets g) = score g"
  by (simp_all add: moveBullets_def)

lemma updateExplosions_frame [simp]:
  "player (updateExplosions g) = player g"
  "gameState (updateExplosions g) = gameState g"
  "submitted (updateExplosions g) = submitted g"
  "score (updateExplosions g) = score g"
  by (simp_all add: updateExplosions_def)

lemma movePlayer_frame [simp]:
  "health (movePlayer ks p) = health p"
  "maxHealth (movePlayer ks p) = maxHealth p"
  by (simp_all add: movePlayer_def Let_def)

lemma applyPowerUp_frame [simp]:
  "health (applyPowerUp u p) = health p"
  "maxHealth (applyPowerUp u p) = maxHealth p"
  by (simp_all add: applyPowerUp_def)

subsection \<open>The enemy pass\<close>

lemma enemyStep_hit:
  "intersects (player g) (moved e) \<Longrightarrow>
   enemyStep rnd e g =
     (None, spawnPowerUp rnd (pos_x e + width e / 2) (pos_y e + speed e + height e / 2)
        (g\<lparr>player := (player g)\<lparr>health := health (player g) - 20\<rparr>,
           explosions := explosions g @ [explosionAt 50 (moved e)]\<rparr>))"
  by (simp add: enemyStep_def moved_def explosionAt_def Let_def)

lemma enemyStep_miss:
  "\<not> intersects (player g) (moved e) \<Longrightarrow>
   enemyStep rnd e g =
     (if pos_y (moved e) < CANVAS_HEIGHT + height e then Some (moved e) else None, g)"
  by (simp add: enemyStep_def moved_def Let_def)

lemma enemyPass_kept:
  "fst (filterS (enemyStep rnd) es g) =
     filter (\<lambda>e. \<not> intersects (player g) e \<and> pos_y e < CANVAS_HEIGHT + height e) (map moved es)"
proof (induction es arbitrary: g)
  case Nil
  show ?case by simp
next
  case (Cons e es)
  show ?case
  proof (cases "intersects (player g) (moved e)")
    case True
    then show ?thesis
      by (simp add: enemyStep_hit Cons.IH filterS_Cons_fst del: filterS.simps)
  next
    case False
    then show ?thesis
      by (simp add: enemyStep_miss Cons.IH filterS_Cons_fst del: filterS.simps)
  qed
qed

lemma enemyPass_player:
  "player (snd (filterS (enemyStep rnd) es g)) =
     (player g)\<lparr>health := health (player g)
        - 20 * of_nat (length (filter (\<lambda>e. intersects (player g) (moved e)) es))\<rparr>"
proof (induction es arbitrary: g)
  case Nil
  show ?case by simp
next
  case (Cons e es)
  show ?case
  proof (cases "intersects (player g) (moved e)")
    case True
    then show ?thesis
      by (simp add: enemyStep_hit Cons.IH filterS_Cons_snd algebra_simps del: filterS.simps)
  next
    case False
    then show ?thesis
      by (simp add: enemyStep_miss Cons.IH filterS_Cons_snd del: filterS.simps)
  qed
qed

lemma enemyPass_explosions:
  "explosions (snd (filterS (enemyStep rnd) es g)) =
     explosions g @ map (explosionAt 50) (filter (intersects (player g)) (map moved es))"
proof (induction es arbitrary: g)
  case Nil
  show ?case by simp
next
  case (Cons e es)
  show ?case
  proof (cases "intersects (player g) (moved e)")
    case True
    then show ?thesis
      by (simp add: enemyStep_hit Cons.IH filterS_Cons_snd del: filterS.simps)
  next
    case False
    then show ?thesis
      by (simp add: enemyStep_miss Cons.IH filterS_Cons_snd del: filterS.simps)
  qed
qed

lemma enemyStep_frame:
  "(score (snd (enemyStep rnd e g)), gameState (snd (enemyStep rnd e g)),
    submitted (snd (enemyStep rnd e g)))
   = (score g, gameState g, submitted g)"
  by (cases "intersects (player g) (moved e)") (simp_all add: enemyStep_hit enemyStep_miss)

lemma enemyPass_frame:
  "score (snd (filterS (enemyStep rnd) es g)) = score g"
  "gameState (snd (filterS (enemyStep rnd) es g)) = gameState g"
  "submitted (snd (filterS (enemyStep rnd) es g)) = submitted g"
  using filterS_preserves [where pr = "\<lambda>g. (score g, gameState g, submitted g)"
      and f = "enemyStep rnd", OF enemyStep_frame, of es g]
  by simp_all

lemma updateEnemies_frame [simp]:
  "score (updateEnemies rnd g) = score g"
  "gameState (updateEnemies rnd g) = gameState g"
  "submitted (updateEnemies rnd g) = submitted g"
  "maxHealth (player (updateEnemies rnd g)) = maxHealth (player g)"
  "health (player (updateEnemies rnd g)) =
     health (player g)
       - 20 * of_nat (length (filter (\<lambda>e. intersects (player g) (moved e)) (enemies g)))"
proof -
  obtain es g' where r: "filterS (enemyStep rnd) (enemies g) g = (es, g')"
    by (cases "filterS (enemyStep rnd) (enemies g) g")
  then have g': "g' = snd (filterS (enemyStep rnd) (enemies g) g)"
    by simp
  show "score (updateEnemies rnd g) = score g"
    "gameState (updateEnemies rnd g) = gameState g"
    "submitted (updateEnemies rnd g) = submitted g"
    "maxHealth (player (updateEnemies rnd g)) = maxHealth (player g)"
    "health (player (updateEnemies rnd g)) =
       health (player g)
         - 20 * of_nat (length (filter (\<lambda>e. intersects (player g) (moved e)) (enemies g)))"
    unfolding updateEnemies_def r
    by (simp_all add: g' enemyPass_frame enemyPass_player)
qed

subsection \<open>The power-up pass\<close>

lemma powerUpStep_frame:
  "(score (snd (powerUpStep u g)), gameState (snd (powerUpStep u g)),
    submitted (snd (powerUpStep u g)), health (player (snd (powerUpStep u g))),
    maxHealth (player (snd (powerUpStep u g))))
   = (score g, gameState g, submitted g, health (player g), maxHealth (player g))"
  by (simp add: powerUpStep_def Let_def)

lemma updatePowerUps_frame [simp]:
  "score (updatePowerUps g) = score g"
  "gameState (updatePowerUps g) = gameState g"
  "submitted (updatePowerUps g) = submitted g"
  "health (player (updatePowerUps g)) = health (player g)"
  "maxHealth (player (updatePowerUps g)) = maxHealth (player g)"
  using filterS_preserves [where f = powerUpStep
      and pr = "\<lambda>g. (score g, gameState g, submitted g, health (player g), maxHealth (player g))",
      OF powerUpStep_frame, of "powerUps g" g]
  by (simp_all add: updatePowerUps_def case_prod_beta)

subsection \<open>The bullet pass\<close>

lemma struck_step:
  "hitEnemy rnd b e (h, g) =
     (case struck b e of [] \<Rightarrow> None | e' # _ \<Rightarrow> Some e',
      h \<or> intersects b e,
      if intersects b e \<and> health e - damage b \<le> 0
      then (spawnPowerUp rnd (pos_x e + width e / 2) (pos_y e + height e / 2)
              (g\<lparr>explosions := explosions g @ [explosionAt (width e) e]\<rparr>))
             \<lparr>score := score g + points (etype e)\<rparr>
      else g)"
  by (simp add: hitEnemy_def struck_def explosionAt_def Let_def)

lemma hitPass_kept:
  "fst (filterS (hitEnemy rnd b) es (h, g)) = concat (map (struck b) es)"
proof (induction es arbitrary: h g)
  case Nil
  show ?case by simp
next
  case (Cons e es)
  show ?case
    by (simp add: struck_step Cons.IH filterS_Cons_fst filterS_Cons_snd struck_def
          del: filterS.simps)
qed

lemma hitPass_flag:
  "fst (snd (filterS (hitEnemy rnd b) es (h, g))) = (h \<or> (\<exists>e \<in> set es. intersects b e))"
proof (induction es arbitrary: h g)
  case Nil
  show ?case by simp
next
  case (Cons e es)
  show ?case
    by (simp add: struck_step Cons.IH filterS_Cons_fst filterS_Cons_snd del: filterS.simps)
qed

lemma hitEnemy_frame:
  "(gameState (snd (snd (hitEnemy rnd b e st))), submitted (snd (snd (hitEnemy rnd b e st))),
    player (snd (snd (hitEnemy rnd b e st))))
   = (gameState (snd st), submitted (snd st), player (snd st))"
  by (cases st) (simp add: struck_step)

lemma hitPass_frame:
  "gameState (snd (snd (filterS (hitEnemy rnd b) es st))) = gameState (snd st)"
  "submitted (snd (snd (filterS (hitEnemy rnd b) es st))) = submitted (snd st)"
  "player (snd (snd (filterS (hitEnemy rnd b) es st))) = player (snd st)"
  using filterS_preserves [where f = "hitEnemy rnd b"
      and pr = "\<lambda>st. (gameState (snd st), submitted (snd st), player (snd st))",
      OF hitEnemy_frame, of es st]
  by simp_all

lemma bulletStep_eq:
  "bulletStep rnd b g =
     (if \<exists>e \<in> set (enemies g). intersects b e then None else Some b,
      (snd (snd (filterS (hitEnemy rnd b) (enemies g) (False, g))))
        \<lparr>enemies := concat (map (struck b) (enemies g))\<rparr>)"
proof -
  obtain es h g' where r: "filterS (hitEnemy rnd b) (enemies g) (False, g) = (es, h, g')"
    by (cases "filterS (hitEnemy rnd b) (enemies g) (False, g)") auto
  from r have "es = fst (filterS (hitEnemy rnd b) (enemies g) (False, g))"
    and "h = fst (snd (filterS (hitEnemy rnd b) (enemies g) (False, g)))"
    and "g' = snd (snd (filterS (hitEnemy rnd b) (enemies g) (False, g)))"
    by simp_all
  then have "es = concat (map (struck b) (enemies g))"
    and "h = (\<exists>e \<in> set (enemies g). intersects b e)"
    and "g' = snd (snd (filterS (hitEnemy rnd b) (enemies g) (False, g)))"
    by (simp_all add: hitPass_kept hitPass_flag)
  then show ?thesis
    unfolding bulletStep_def r by simp
qed

lemma bulletStep_frame:
  "(gameState (snd (bulletStep rnd b g)), submitted (snd (bulletStep rnd b g)),
    player (snd (bulletStep rnd b g)))
   = (gameState g, submitted g, player g)"
  by (simp add: bulletStep_eq hitPass_frame)

lemma bulletCollisions_frame [simp]:
  "gameState (bulletCollisions rnd g) = gameState g"
  "submitted (bulletCollisions rnd g) = submitted g"
  "player (bulletCollisions rnd g) = player g"
  using filterS_preserves [where f = "bulletStep rnd"
      and pr = "\<lambda>g. (gameState g, submitted g, player g)",
      OF bulletStep_frame, of "bullets g" g]
  by (simp_all add: bulletCollisions_def case_prod_beta)

subsection \<open>The tick and the run\<close>

lemma updateGame_idle:
  "gameState g \<noteq> Playing \<Longrightarrow> updateGame inp g = g"
  by (simp add: updateGame_def)

lemma updateGame_playing:
  assumes "gameState g = Playing"
  shows "maxHealth (player (updateGame inp g)) = maxHealth (player g)"
    and "health (player (updateGame inp g)) \<le> health (player g)"
    and "gameState (updateGame inp g)
           = (if health (player (updateGame inp g)) \<le> 0 then GameOver else Playing)"
    and "submitted (updateGame inp g)
           = (if health (player (updateGame inp g)) \<le> 0 then submitted g @ [score g]
              else submitted g)"
  using assms by (simp_all add: updateGame_def Let_def)

lemma run_append: "run (evs @ evs') g = run evs' (run evs g)"
  by (induction evs arbitrary: g) simp_all

lemma reachable_run: "reachable g \<Longrightarrow> reachable (run evs g)"
  by (induction evs arbitrary: g) (simp_all add: reachable_step)

section \<open>The collision test\<close>

text \<open>
  C5. The collision test between entities is the intersection of axis-aligned boxes with
  strict inequalities. In the bullet pass, a bullet with rectangle \<open>(0,0,10,10)\<close> hits an
  enemy with rectangle \<open>(5,5,10,10)\<close>, and does not hit one with rectangle
  \<open>(10,10,10,10)\<close>, which it touches at a corner only: that enemy, the flag and the game
  are left as they were.
\<close>

theorem intersects_strict_aabb:
  "intersects a b =
     (pos_x a < pos_x b + width b \<and> pos_x a + width a > pos_x b \<and>
      pos_y a < pos_y b + height b \<and> pos_y a + height a > pos_y b)
   \<and> fst (snd (hitEnemy rnd (bullet\<lparr>pos_x := 0, pos_y := 0, width := 10, height := 10\<rparr>)
                 (enemy\<lparr>pos_x := 5, pos_y := 5, width := 10, height := 10\<rparr>) (False, g)))
   \<and> hitEnemy rnd (bullet\<lparr>pos_x := 0, pos_y := 0, width := 10, height := 10\<rparr>)
        (enemy\<lparr>pos_x := 10, pos_y := 10, width := 10, height := 10\<rparr>) (False, g)
      = (Some (enemy\<lparr>pos_x := 10, pos_y := 10, width := 10, height := 10\<rparr>), False, g)"
  by (simp add: intersects_def hitEnemy_def Let_def)

section \<open>Shooting and its cooldown\<close>

lemma volley_lastShot: "volley (p\<lparr>lastShot := t\<rparr>) = volley p"
  by (simp add: volley_def)

text \<open>
  C4. \<open>shootBullet\<close> fires exactly when the time since the last shot is at least
  \<open>fireRate\<close>; it then records the timestamp and appends one volley, which has
  \<open>bulletCount\<close> bullets, each \<open>6 \<times> bulletSize\<close> wide, \<open>12 \<times> bulletSize\<close> high and of damage
  \<open>10 \<times> bulletSize\<close>; otherwise it changes nothing. With \<open>fireRate = 200\<close> and the cooldown
  elapsed at the first call, a second call 150 ms later adds nothing to the first volley
  and a second call 250 ms later adds a second volley.
\<close>

theorem shootBullet_cooldown:
  "shootBullet t g =
     (if fireRate (player g) \<le> t - lastShot (player g)
      then g\<lparr>player := (player g)\<lparr>lastShot := t\<rparr>, bullets := bullets g @ volley (player g)\<rparr>
      else g)
   \<and> (bulletCount p = of_nat n \<longrightarrow> length (volley p) = n)
   \<and> (\<forall>b \<in> set (volley p).
        width b = 6 * bulletSize p \<and> height b = 12 * bulletSize p \<and> damage b = 10 * bulletSize p)
   \<and> (fireRate (player g) = 200 \<and> 200 \<le> t - lastShot (player g) \<longrightarrow>
        bullets (shootBullet (t + 150) (shootBullet t g)) = bullets g @ volley (player g) \<and>
        bullets (shootBullet (t + 250) (shootBullet t g))
          = bullets g @ volley (player g) @ volley (player g))"
proof -
  have fire: "shootBullet t g =
     (if fireRate (player g) \<le> t - lastShot (player g)
      then g\<lparr>player := (player g)\<lparr>lastShot := t\<rparr>, bullets := bullets g @ volley (player g)\<rparr>
      else g)"
    by (simp add: shootBullet_def)
  have count: "bulletCount p = of_nat n \<longrightarrow> length (volley p) = n"
    by (simp add: volley_def Let_def)
  have shape: "\<forall>b \<in> set (volley p).
        width b = 6 * bulletSize p \<and> height b = 12 * bulletSize p \<and> damage b = 10 * bulletSize p"
    by (auto simp add: volley_def Let_def)
  have cadence: "fireRate (player g) = 200 \<and> 200 \<le> t - lastShot (player g) \<longrightarrow>
        bullets (shootBullet (t + 150) (shootBullet t g)) = bullets g @ volley (player g) \<and>
        bullets (shootBullet (t + 250) (shootBullet t g))
          = bullets g @ volley (player g) @ volley (player g)"
    by (simp add: shootBullet_def volley_lastShot)
  from fire count shape cadence show ?thesis by blast
qed

theorem shootBullet_cooldown_witness:
  "(fireRate (player (startGame initialGame)) = 200
    \<and> 200 \<le> 216 - lastShot (player (startGame initialGame)))
   \<and> bulletCount initialPlayer = of_nat 1
   \<and> length (volley initialPlayer) = 1
   \<and> bullets (shootBullet (216 + 150) (shootBullet 216 (startGame initialGame)))
       = bullets (startGame initialGame) @ volley (player (startGame initialGame))
   \<and> bullets (shootBullet (216 + 250) (shootBullet 216 (startGame initialGame)))
       = bullets (startGame initialGame) @ volley (player (startGame initialGame))
           @ volley (player (startGame initialGame))"
proof -
  have cool: "fireRate (player (startGame initialGame)) = 200
      \<and> 200 \<le> 216 - lastShot (player (startGame initialGame))"
    by (simp add: startGame_def resetGame_def initialGame_def initialPlayer_def)
  have cnt: "bulletCount initialPlayer = of_nat 1"
    by (simp add: initialPlayer_def)
  from shootBullet_cooldown [of 216 "startGame initialGame" initialPlayer 1] cool cnt
  show ?thesis by blast
qed

section \<open>Power-ups\<close>

lemma applyPowerUp_count:
  "ptype u = Some Count \<Longrightarrow> bulletCount (applyPowerUp u p) = min 5 (bulletCount p + 1)"
  by (simp add: applyPowerUp_def)

lemma applyPowerUp_rate:
  "ptype u = Some Rate \<Longrightarrow> fireRate (applyPowerUp u p) = max 50 (fireRate p - 30)"
  by (simp add: applyPowerUp_def)

lemma applyPowerUp_size:
  "ptype u = Some Size \<Longrightarrow> bulletSize (applyPowerUp u p) = min 2 (bulletSize p + 3 / 10)"
  by (simp add: applyPowerUp_def)

lemma count_iterated:
  "ptype u = Some Count \<Longrightarrow>
   bulletCount ((applyPowerUp u ^^ n) initialPlayer) = min 5 (1 + of_nat n)"
proof (induction n)
  case 0
  then show ?case by (simp add: initialPlayer_def)
next
  case (Suc n)
  then show ?case by (simp add: applyPowerUp_count)
qed

lemma rate_iterated:
  "ptype u = Some Rate \<Longrightarrow>
   fireRate ((applyPowerUp u ^^ n) initialPlayer) = max 50 (200 - 30 * of_nat n)"
proof (induction n)
  case 0
  then show ?case by (simp add: initialPlayer_def)
next
  case (Suc n)
  then show ?case by (simp add: applyPowerUp_rate algebra_simps)
qed

lemma size_iterated:
  "ptype u = Some Size \<Longrightarrow>
   bulletSize ((applyPowerUp u ^^ n) initialPlayer) = min 2 (1 + 3 / 10 * of_nat n)"
proof (induction n)
  case 0
  then show ?case by (simp add: initialPlayer_def)
next
  case (Suc n)
  then show ?case by (simp add: applyPowerUp_size min_def field_simps)
qed

text \<open>
  C6. A power-up that intersects the player after its move is removed and its effect
  applied: \<open>size\<close> sets \<open>bulletSize\<close> to \<open>min 2 (bulletSize + 0.3)\<close>, \<open>rate\<close> sets \<open>fireRate\<close>
  to \<open>max 50 (fireRate - 30)\<close>, \<open>count\<close> sets \<open>bulletCount\<close> to \<open>min 5 (bulletCount + 1)\<close>.
  From the default player, \<open>n\<close> \<open>count\<close> pickups give \<open>min 5 (1 + n)\<close> bullets, which never
  exceeds 5 and is 5 after ten pickups and after any four or more; five or more \<open>rate\<close>
  pickups give \<open>fireRate = 50\<close>; four or more \<open>size\<close> pickups give \<open>bulletSize = 2\<close>. At the
  cap each effect leaves the player as it is.
\<close>

theorem powerUp_caps:
  "(intersects (player g) (u\<lparr>pos_y := pos_y u + speed u\<rparr>) \<longrightarrow>
      powerUpStep u g
        = (None, g\<lparr>player := applyPowerUp (u\<lparr>pos_y := pos_y u + speed u\<rparr>) (player g)\<rparr>))
   \<and> applyPowerUp (u\<lparr>ptype := Some Size\<rparr>) p = p\<lparr>bulletSize := min 2 (bulletSize p + 3 / 10)\<rparr>
   \<and> applyPowerUp (u\<lparr>ptype := Some Rate\<rparr>) p = p\<lparr>fireRate := max 50 (fireRate p - 30)\<rparr>
   \<and> applyPowerUp (u\<lparr>ptype := Some Count\<rparr>) p = p\<lparr>bulletCount := min 5 (bulletCount p + 1)\<rparr>
   \<and> bulletCount ((applyPowerUp (u\<lparr>ptype := Some Count\<rparr>) ^^ n) initialPlayer)
        = min 5 (1 + of_nat n)
   \<and> bulletCount ((applyPowerUp (u\<lparr>ptype := Some Count\<rparr>) ^^ 10) initialPlayer) = 5
   \<and> bulletCount ((applyPowerUp (u\<lparr>ptype := Some Count\<rparr>) ^^ (4 + n)) initialPlayer) = 5
   \<and> fireRate ((applyPowerUp (u\<lparr>ptype := Some Rate\<rparr>) ^^ n) initialPlayer)
        = max 50 (200 - 30 * of_nat n)
   \<and> fireRate ((applyPowerUp (u\<lparr>ptype := Some Rate\<rparr>) ^^ (5 + n)) initialPlayer) = 50
   \<and> bulletSize ((applyPowerUp (u\<lparr>ptype := Some Size\<rparr>) ^^ n) initialPlayer)
        = min 2 (1 + 3 / 10 * of_nat n)
   \<and> bulletSize ((applyPowerUp (u\<lparr>ptype := Some Size\<rparr>) ^^ (4 + n)) initialPlayer) = 2
   \<and> applyPowerUp (u\<lparr>ptype := Some Count\<rparr>) (p\<lparr>bulletCount := 5\<rparr>) = p\<lparr>bulletCount := 5\<rparr>
   \<and> applyPowerUp (u\<lparr>ptype := Some Rate\<rparr>) (p\<lparr>fireRate := 50\<rparr>) = p\<lparr>fireRate := 50\<rparr>
   \<and> applyPowerUp (u\<lparr>ptype := Some Size\<rparr>) (p\<lparr>bulletSize := 2\<rparr>) = p\<lparr>bulletSize := 2\<rparr>"
proof -
  let ?c = "u\<lparr>ptype := Some Count\<rparr>" and ?r = "u\<lparr>ptype := Some Rate\<rparr>"
    and ?s = "u\<lparr>ptype := Some Size\<rparr>"
  have tc: "ptype ?c = Some Count" and tr: "ptype ?r = Some Rate" and ts: "ptype ?s = Some Size"
    by simp_all
  have pick: "intersects (player g) (u\<lparr>pos_y := pos_y u + speed u\<rparr>) \<longrightarrow>
      powerUpStep u g
        = (None, g\<lparr>player := applyPowerUp (u\<lparr>pos_y := pos_y u + speed u\<rparr>) (player g)\<rparr>)"
    by (simp add: powerUpStep_def Let_def)
  have eff: "applyPowerUp ?s p = p\<lparr>bulletSize := min 2 (bulletSize p + 3 / 10)\<rparr>"
    "applyPowerUp ?r p = p\<lparr>fireRate := max 50 (fireRate p - 30)\<rparr>"
    "applyPowerUp ?c p = p\<lparr>bulletCount := min 5 (bulletCount p + 1)\<rparr>"
    by (simp_all add: applyPowerUp_def)
  have c1: "bulletCount ((applyPowerUp ?c ^^ n) initialPlayer) = min 5 (1 + of_nat n)"
    by (rule count_iterated [OF tc])
  have c2: "bulletCount ((applyPowerUp ?c ^^ 10) initialPlayer) = 5"
    using count_iterated [OF tc, of 10] by simp
  have c3: "bulletCount ((applyPowerUp ?c ^^ (4 + n)) initialPlayer) = 5"
    using count_iterated [OF tc, of "4 + n"] by simp
  have r1: "fireRate ((applyPowerUp ?r ^^ n) initialPlayer) = max 50 (200 - 30 * of_nat n)"
    by (rule rate_iterated [OF tr])
  have r2: "fireRate ((applyPowerUp ?r ^^ (5 + n)) initialPlayer) = 50"
    using rate_iterated [OF tr, of "5 + n"] by (simp add: algebra_simps)
  have s1: "bulletSize ((applyPowerUp ?s ^^ n) initialPlayer) = min 2 (1 + 3 / 10 * of_nat n)"
    by (rule size_iterated [OF ts])
  have s2: "bulletSize ((applyPowerUp ?s ^^ (4 + n)) initialPlayer) = 2"
    using size_iterated [OF ts, of "4 + n"] by (simp add: algebra_simps)
  have idem: "applyPowerUp ?c (p\<lparr>bulletCount := 5\<rparr>) = p\<lparr>bulletCount := 5\<rparr>"
    "applyPowerUp ?r (p\<lparr>fireRate := 50\<rparr>) = p\<lparr>fireRate := 50\<rparr>"
    "applyPowerUp ?s (p\<lparr>bulletSize := 2\<rparr>) = p\<lparr>bulletSize := 2\<rparr>"
    by (simp_all add: applyPowerUp_def)
  from pick eff c1 c2 c3 r1 r2 s1 s2 idem show ?thesis by blast
qed

theorem powerUp_caps_witness:
  "intersects (player pickupGame) ((hd (powerUps pickupGame))\<lparr>pos_y := 692\<rparr>)
   \<and> fst (powerUpStep (hd (powerUps pickupGame)) pickupGame) = None
   \<and> bulletCount (player (snd (powerUpStep (hd (powerUps pickupGame)) pickupGame))) = 2"
proof -
  have u: "hd (powerUps pickupGame)
      = \<lparr>pos_x = 280, pos_y = 690, width = 40, height = 40, speed = 2, ptype = Some Count\<rparr>"
    by (simp add: pickupGame_def)
  have pl: "player pickupGame = initialPlayer"
    by (simp add: pickupGame_def startGame_def resetGame_def)
  have hit: "intersects (player pickupGame)
      ((hd (powerUps pickupGame))\<lparr>pos_y := pos_y (hd (powerUps pickupGame)) + speed (hd (powerUps pickupGame))\<rparr>)"
    unfolding u pl
    by (simp add: intersects_def initialPlayer_def CANVAS_WIDTH_def CANVAS_HEIGHT_def)
  from powerUp_caps [of pickupGame "hd (powerUps pickupGame)"] hit
  have "powerUpStep (hd (powerUps pickupGame)) pickupGame
      = (None, pickupGame\<lparr>player := applyPowerUp ((hd (powerUps pickupGame))\<lparr>pos_y := pos_y (hd (powerUps pickupGame)) + speed (hd (powerUps pickupGame))\<rparr>) (player pickupGame)\<rparr>)"
    by blast
  with hit show ?thesis
    unfolding u pl by (simp add: applyPowerUp_def initialPlayer_def)
qed

section \<open>Player against enemies\<close>

text \<open>
  C7. An enemy that intersects the player after its move is dropped from the enemy
  array whatever its health; the player loses 20 health, one explosion with \<open>maxRadius\<close>
  50 is appended at the enemy's centre, and \<open>spawnPowerUp\<close> is called with that centre.
  Over the whole pass the player loses 20 health for each such enemy, one such explosion
  is appended for each in order, the enemies kept are the moved enemies that do not
  intersect the player and are still on the canvas, and the score is unchanged.
\<close>

theorem player_enemy_collision:
  "(intersects (player g) (moved e) \<longrightarrow>
      enemyStep rnd e g =
        (None, spawnPowerUp rnd (pos_x e + width e / 2) (pos_y e + speed e + height e / 2)
           (g\<lparr>player := (player g)\<lparr>health := health (player g) - 20\<rparr>,
              explosions := explosions g @ [explosionAt 50 (moved e)]\<rparr>)))
   \<and> player (updateEnemies rnd g) =
       (player g)\<lparr>health := health (player g)
          - 20 * of_nat (length (filter (\<lambda>e. intersects (player g) (moved e)) (enemies g)))\<rparr>
   \<and> explosions (updateEnemies rnd g) =
       explosions g @ map (explosionAt 50) (filter (intersects (player g)) (map moved (enemies g)))
   \<and> enemies (updateEnemies rnd g) =
       filter (\<lambda>e. \<not> intersects (player g) e \<and> pos_y e < CANVAS_HEIGHT + height e)
         (map moved (enemies g))
   \<and> score (updateEnemies rnd g) = score g"
proof -
  have one: "intersects (player g) (moved e) \<longrightarrow>
      enemyStep rnd e g =
        (None, spawnPowerUp rnd (pos_x e + width e / 2) (pos_y e + speed e + height e / 2)
           (g\<lparr>player := (player g)\<lparr>health := health (player g) - 20\<rparr>,
              explosions := explosions g @ [explosionAt 50 (moved e)]\<rparr>))"
    by (simp add: enemyStep_hit)
  have pl: "player (updateEnemies rnd g) =
       (player g)\<lparr>health := health (player g)
          - 20 * of_nat (length (filter (\<lambda>e. intersects (player g) (moved e)) (enemies g)))\<rparr>"
    by (simp add: updateEnemies_def case_prod_beta enemyPass_player)
  have ex: "explosions (updateEnemies rnd g) =
       explosions g @ map (explosionAt 50) (filter (intersects (player g)) (map moved (enemies g)))"
    by (simp add: updateEnemies_def case_prod_beta enemyPass_explosions)
  have en: "enemies (updateEnemies rnd g) =
       filter (\<lambda>e. \<not> intersects (player g) e \<and> pos_y e < CANVAS_HEIGHT + height e)
         (map moved (enemies g))"
    by (simp add: updateEnemies_def case_prod_beta enemyPass_kept)
  have sc: "score (updateEnemies rnd g) = score g"
    by simp
  from one pl ex en sc show ?thesis by blast
qed

theorem player_enemy_collision_witness:
  "intersects (player crashGame) (moved largeEnemy)
   \<and> fst (enemyStep noRandom largeEnemy crashGame) = None
   \<and> health (player (updateEnemies noRandom crashGame)) = 80
   \<and> explosions (updateEnemies noRandom crashGame)
       = [\<lparr>pos_x = 315, pos_y = 741, radius = 0, maxRadius = 50, opacity = 1\<rparr>]
   \<and> enemies (updateEnemies noRandom crashGame) = []
   \<and> score (updateEnemies noRandom crashGame) = 0"
proof -
  have pl: "player crashGame = initialPlayer" and en: "enemies crashGame = [largeEnemy]"
    and ex: "explosions crashGame = []" and sc: "score crashGame = 0"
    by (simp_all add: crashGame_def startGame_def resetGame_def)
  have hit: "intersects (player crashGame) (moved largeEnemy)"
    by (simp add: pl intersects_def initialPlayer_def largeEnemy_def
        CANVAS_WIDTH_def CANVAS_HEIGHT_def)
  note T = player_enemy_collision [of crashGame largeEnemy noRandom]
  from T hit have 1: "fst (enemyStep noRandom largeEnemy crashGame) = None"
    by simp
  from T have "health (player (updateEnemies noRandom crashGame))
      = health (player crashGame) - 20 * of_nat (length (filter (\<lambda>e. intersects (player crashGame) (moved e)) (enemies crashGame)))"
    by simp
  with hit have 2: "health (player (updateEnemies noRandom crashGame)) = 80"
    by (simp add: en) (simp add: pl initialPlayer_def)
  from T hit have 3: "explosions (updateEnemies noRandom crashGame)
       = [\<lparr>pos_x = 315, pos_y = 741, radius = 0, maxRadius = 50, opacity = 1\<rparr>]"
    by (simp add: en ex explosionAt_def) (simp add: largeEnemy_def)
  from T hit have 4: "enemies (updateEnemies noRandom crashGame) = []"
    by (simp add: en)
  from T have 5: "score (updateEnemies noRandom crashGame) = 0"
    by (simp add: sc)
  from hit 1 2 3 4 5 show ?thesis by blast
qed

section \<open>Bullets against enemies\<close>

text \<open>
  C1, as stated, fails: a bullet whose rectangle overlaps two enemies takes its damage
  from both in the same pass. The inner filter visits every enemy and has no exit at
  the first hit.
\<close>

theorem first_match_counterexample:
  "intersects (bulletAt 125 130) (smallEnemyAt 100 100)
   \<and> intersects (bulletAt 125 130) (smallEnemyAt 120 100)
   \<and> bullets doubleHitGame = [bulletAt 125 130]
   \<and> enemies doubleHitGame = [smallEnemyAt 100 100, smallEnemyAt 120 100]
   \<and> enemies (bulletCollisions noRandom doubleHitGame)
       = [(smallEnemyAt 100 100)\<lparr>health := 10\<rparr>, (smallEnemyAt 120 100)\<lparr>health := 10\<rparr>]
   \<and> bullets (bulletCollisions noRandom doubleHitGame) = []"
  by (simp add: doubleHitGame_def startGame_def resetGame_def bulletCollisions_def
      bulletStep_def hitEnemy_def intersects_def bulletAt_def smallEnemyAt_def Let_def)

text \<open>
  C1, amended. In the bullet pass a bullet takes its damage from every enemy that its
  rectangle intersects: each of them is dropped if its health falls to 0 or below and
  kept with the lowered health otherwise, and the enemies it does not intersect are
  kept as they are. The bullet is removed exactly when it intersects at least one enemy.
\<close>

theorem bullet_hits_every_overlap:
  "enemies (snd (bulletStep rnd b g)) = concat (map (struck b) (enemies g))
   \<and> fst (bulletStep rnd b g) = (if \<exists>e \<in> set (enemies g). intersects b e then None else Some b)
   \<and> (\<forall>e. struck b e =
        (if intersects b e
         then (if health e - damage b \<le> 0 then [] else [e\<lparr>health := health e - damage b\<rparr>])
         else [e]))"
  by (simp add: bulletStep_eq struck_def)

theorem bullet_hits_every_overlap_witness:
  "(\<exists>e \<in> set (enemies doubleHitGame). intersects (bulletAt 125 130) e)
   \<and> fst (bulletStep noRandom (bulletAt 125 130) doubleHitGame) = None
   \<and> enemies (snd (bulletStep noRandom (bulletAt 125 130) doubleHitGame))
       = [(smallEnemyAt 100 100)\<lparr>health := 10\<rparr>, (smallEnemyAt 120 100)\<lparr>health := 10\<rparr>]"
proof -
  have en: "enemies doubleHitGame = [smallEnemyAt 100 100, smallEnemyAt 120 100]"
    by (simp add: doubleHitGame_def)
  have h1: "intersects (bulletAt 125 130) (smallEnemyAt 100 100)"
    and h2: "intersects (bulletAt 125 130) (smallEnemyAt 120 100)"
    by (simp_all add: intersects_def bulletAt_def smallEnemyAt_def)
  have d: "health (smallEnemyAt 100 100) - damage (bulletAt 125 130) = 10"
    "health (smallEnemyAt 120 100) - damage (bulletAt 125 130) = 10"
    by (simp_all add: bulletAt_def smallEnemyAt_def)
  from h1 have ex: "\<exists>e \<in> set (enemies doubleHitGame). intersects (bulletAt 125 130) e"
    by (simp add: en)
  note T = bullet_hits_every_overlap [of noRandom "bulletAt 125 130" doubleHitGame]
  from T ex have 1: "fst (bulletStep noRandom (bulletAt 125 130) doubleHitGame) = None"
    by simp
  from T h1 h2 d have 2: "enemies (snd (bulletStep noRandom (bulletAt 125 130) doubleHitGame))
       = [(smallEnemyAt 100 100)\<lparr>health := 10\<rparr>, (smallEnemyAt 120 100)\<lparr>health := 10\<rparr>]"
    by (simp add: en)
  from ex 1 2 show ?thesis by blast
qed

section \<open>Where a power-up is placed\<close>

lemma spawnPowerUp_success:
  "rnd (draws g) \<le> 3 / 10 \<Longrightarrow>
   powerUps (spawnPowerUp rnd x y g) =
     powerUps g @ [\<lparr>pos_x = x - 20, pos_y = y, width = 40, height = 40, speed = 2,
                    ptype = index types \<lfloor>rnd (draws g + 1) * 3\<rfloor>\<rparr>]"
  by (simp add: spawnPowerUp_def types_def Let_def)

lemma variant_thirds:
  fixes r :: number
  shows "index types \<lfloor>r * 3\<rfloor> =
     (if 0 \<le> r \<and> r < 1 / 3 then Some Size
      else if 1 / 3 \<le> r \<and> r < 2 / 3 then Some Rate
      else if 2 / 3 \<le> r \<and> r < 1 then Some Count
      else None)"
proof -
  have 0: "\<lfloor>r * 3\<rfloor> = 0 \<longleftrightarrow> 0 \<le> r \<and> r < 1 / 3"
    and 1: "\<lfloor>r * 3\<rfloor> = 1 \<longleftrightarrow> 1 / 3 \<le> r \<and> r < 2 / 3"
    and 2: "\<lfloor>r * 3\<rfloor> = 2 \<longleftrightarrow> 2 / 3 \<le> r \<and> r < 1"
    by (auto simp add: floor_eq_iff)
  have range: "0 \<le> \<lfloor>r * 3\<rfloor> \<and> \<lfloor>r * 3\<rfloor> < 3 \<longleftrightarrow> 0 \<le> r \<and> r < 1"
    by (auto simp add: le_floor_iff floor_less_iff)
  have split: "0 \<le> \<lfloor>r * 3\<rfloor> \<and> \<lfloor>r * 3\<rfloor> < 3 \<longleftrightarrow>
      \<lfloor>r * 3\<rfloor> = 0 \<or> \<lfloor>r * 3\<rfloor> = 1 \<or> \<lfloor>r * 3\<rfloor> = 2"
    by presburger
  show ?thesis
  proof (cases "0 \<le> r \<and> r < 1")
    case False
    with range show ?thesis by (auto simp add: index_def types_def)
  next
    case True
    with range split consider "\<lfloor>r * 3\<rfloor> = 0" | "\<lfloor>r * 3\<rfloor> = 1" | "\<lfloor>r * 3\<rfloor> = 2"
      by blast
    then show ?thesis
    proof cases
      case 1
      with 0 show ?thesis by (simp add: index_def types_def)
    next
      case 2
      with 1 show ?thesis by (simp add: index_def types_def)
    next
      case 3
      with 2 show ?thesis by (simp add: index_def types_def)
    qed
  qed
qed

text \<open>
  C3. \<open>spawnPowerUp\<close> subtracts half the size from \<open>x\<close> and passes \<open>y\<close> on as it is: for
  the kill point \<open>(100, 100)\<close> the power-up has its corner at \<open>(80, 100)\<close> and its centre
  at \<open>(100, 120)\<close>, not at the kill point.
\<close>

theorem spawnPowerUp_centre_off:
  "powerUps (spawnPowerUp zeroRandom 100 100 (startGame initialGame))
     = [\<lparr>pos_x = 80, pos_y = 100, width = 40, height = 40, speed = 2, ptype = Some Size\<rparr>]
   \<and> (let u = hd (powerUps (spawnPowerUp zeroRandom 100 100 (startGame initialGame)))
      in pos_x u + width u / 2 = 100 \<and> pos_y u + height u / 2 = 120)"
  by (simp add: spawnPowerUp_def zeroRandom_def startGame_def resetGame_def initialGame_def
      types_def index_def Let_def)

section \<open>The end of a game\<close>

lemma ticks_after_gameover:
  "gameState g \<noteq> Playing \<Longrightarrow> run (map Tick inps) g = g"
  by (induction inps) (simp_all add: step_def updateGame_idle)

lemma ascent_run: "run ascent initialGame = beforeGameOver"
  by code_simp

text \<open>
  C8. A tick of a running game ends the game exactly when the player's health is 0 or
  less at its end, and then calls \<open>updateHighScore\<close> once; the ticks after it change
  nothing (\<open>updateGame_playing\<close>, \<open>ticks_after_gameover\<close>). The score it submits is the one
  of the start of the tick. The events of \<open>ascent\<close> lead from the start screen to a
  running game with score 0; in the next frame an enemy reaches the player, who has 20
  health left, and a bullet destroys another enemy, so the game ends with the score 10
  and the submitted score is 0.
\<close>

theorem submitted_score_stale:
  "reachable (run ascent initialGame)
   \<and> gameState (run ascent initialGame) = Playing
   \<and> score (run ascent initialGame) = 0
   \<and> gameState (step finalFrame (run ascent initialGame)) = GameOver
   \<and> score (step finalFrame (run ascent initialGame)) = 10
   \<and> submitted (step finalFrame (run ascent initialGame)) = [0]"
proof -
  have r: "reachable (run ascent initialGame)"
    by (rule reachable_run [OF reachable_initial])
  have before: "gameState beforeGameOver = Playing \<and> score beforeGameOver = 0"
    by (simp add: beforeGameOver_def)
  have after: "gameState (step finalFrame beforeGameOver) = GameOver
      \<and> score (step finalFrame beforeGameOver) = 10
      \<and> submitted (step finalFrame beforeGameOver) = [0]"
    by code_simp
  from r before after show ?thesis
    by (simp add: ascent_run)
qed

section \<open>The player's health\<close>

lemma approach_run: "run approach initialGame = beforeCrashes"
  by code_simp

text \<open>
  C2, as stated, fails: the health is not clamped. The events of \<open>approach\<close> lead from the
  start screen to a running game in which the player has 20 health left, and in the next
  frame two enemies intersect the player, which leaves the health at \<open>-20\<close>.
\<close>

theorem health_negative_counterexample:
  "reachable (run approach initialGame)
   \<and> gameState (run approach initialGame) = Playing
   \<and> health (player (run approach initialGame)) = 20
   \<and> reachable (step lastFrame (run approach initialGame))
   \<and> health (player (step lastFrame (run approach initialGame))) = - 20
   \<and> maxHealth (player (step lastFrame (run approach initialGame))) = 100"
proof -
  have r: "reachable (run approach initialGame)"
    by (rule reachable_run [OF reachable_initial])
  then have r': "reachable (step lastFrame (run approach initialGame))"
    by (rule reachable_step)
  have before: "gameState beforeCrashes = Playing \<and> health (player beforeCrashes) = 20"
    by (simp add: beforeCrashes_def)
  have after: "health (player (step lastFrame beforeCrashes)) = - 20
      \<and> maxHealth (player (step lastFrame beforeCrashes)) = 100"
    by code_simp
  from r r' before after show ?thesis
    by (simp add: approach_run)
qed

text \<open>
  C2, amended. In every state that a game can reach the player's health is at most
  \<open>maxHealth\<close>, which is 100, and while the game is running, that is at the start of every
  simulated tick, the health is positive. The health is not clamped at 0: every enemy
  that intersects the player in a tick lowers it by 20, so at the end of the tick that
  ends the game it may be negative.
\<close>

theorem health_bounds:
  "reachable g \<Longrightarrow>
   health (player g) \<le> maxHealth (player g) \<and> maxHealth (player g) = 100
   \<and> (gameState g = Playing \<longrightarrow> 0 < health (player g))"
proof (induction rule: reachable.induct)
  case reachable_initial
  show ?case by (simp add: initialGame_def initialPlayer_def)
next
  case (reachable_step g ev)
  show ?case
  proof (cases ev)
    case StartGame
    with reachable_step.IH show ?thesis
      by (simp add: step_def startGame_def resetGame_def initialPlayer_def)
  next
    case (Tick inp)
    show ?thesis
    proof (cases "gameState g = Playing")
      case False
      with reachable_step.IH Tick show ?thesis
        by (simp add: step_def updateGame_idle)
    next
      case True
      from updateGame_playing [OF True, of inp] reachable_step.IH
      have "health (player (updateGame inp g)) \<le> maxHealth (player (updateGame inp g))"
        and "maxHealth (player (updateGame inp g)) = 100"
        and "gameState (updateGame inp g) = Playing \<longrightarrow> 0 < health (player (updateGame inp g))"
        by (auto split: if_splits)
      with Tick show ?thesis
        by (simp add: step_def)
    qed
  qed
qed

theorem health_bounds_witness:
  "reachable (step StartGame initialGame)
   \<and> gameState (step StartGame initialGame) = Playing
   \<and> health (player (step StartGame initialGame)) \<le> maxHealth (player (step StartGame initialGame))
   \<and> maxHealth (player (step StartGame initialGame)) = 100
   \<and> 0 < health (player (step StartGame initialGame))"
proof -
  have r: "reachable (step StartGame initialGame)"
    by (rule reachable_step [OF reachable_initial])
  have p: "gameState (step StartGame initialGame) = Playing"
    by (simp add: step_def startGame_def resetGame_def initialGame_def)
  from health_bounds [OF r] r p show ?thesis by blast
qed

section \<open>The high-score store\<close>

lemma findFirstDesc_Max:
  "findFirstDesc rows = (if rows = [] then None else Some (Max (set rows)))"
  by (cases rows) (simp_all add: findFirstDesc_def Max.set_eq_fold del: set_simps)

text \<open>
  C9, as stated, fails on the empty table: submitting the score 0 creates a record and
  reports a new record, although 0 does not exceed the maximum 0 that the fetch reports
  for the empty table.
\<close>

theorem submit_empty_store_counterexample:
  "POST (Some (JObj [(''score'', JNum 0)])) [] = (Updated 0 True, [0])
   \<and> GET [] = HighScore 0 \<and> \<not> (0 :: number) > 0"
  by (simp add: POST_def scoreOf_def findFirstDesc_def create_def GET_def)

text \<open>
  C9, amended. A submitted number \<open>s \<ge> 0\<close> is stored and reported as a new record exactly
  when the table is empty or \<open>s\<close> strictly exceeds the greatest stored score; otherwise
  the greatest stored score is returned with \<open>isNewRecord = false\<close> and the table is
  unchanged. A negative number, a value that is not a number and a missing \<open>score\<close> are
  rejected with status 400 and the table is unchanged. The fetch returns 0 on the empty
  table.
\<close>

theorem submit_and_fetch:
  "(scoreOf body = Value (JNum s) \<and> 0 \<le> s \<longrightarrow>
      POST (Some body) rows =
        (if rows = [] \<or> s > Max (set rows) then (Updated s True, rows @ [s])
         else (Updated (Max (set rows)) False, rows)))
   \<and> (scoreOf body = Value (JNum s) \<and> s < 0 \<longrightarrow>
        POST (Some body) rows = (Failure 400 ''Invalid score'', rows))
   \<and> (scoreOf body = Value v \<and> (\<forall>n. v \<noteq> JNum n) \<longrightarrow>
        POST (Some body) rows = (Failure 400 ''Invalid score'', rows))
   \<and> (scoreOf body = Undefined \<longrightarrow>
        POST (Some body) rows = (Failure 400 ''Invalid score'', rows))
   \<and> GET [] = HighScore 0"
proof -
  have valid: "scoreOf body = Value (JNum s) \<and> 0 \<le> s \<longrightarrow>
      POST (Some body) rows =
        (if rows = [] \<or> s > Max (set rows) then (Updated s True, rows @ [s])
         else (Updated (Max (set rows)) False, rows))"
    by (simp add: POST_def findFirstDesc_Max create_def)
  have negative: "scoreOf body = Value (JNum s) \<and> s < 0 \<longrightarrow>
        POST (Some body) rows = (Failure 400 ''Invalid score'', rows)"
    by (simp add: POST_def)
  have other: "scoreOf body = Value v \<and> (\<forall>n. v \<noteq> JNum n) \<longrightarrow>
        POST (Some body) rows = (Failure 400 ''Invalid score'', rows)"
    by (cases v) (simp_all add: POST_def)
  have missing: "scoreOf body = Undefined \<longrightarrow>
        POST (Some body) rows = (Failure 400 ''Invalid score'', rows)"
    by (simp add: POST_def)
  have fetch: "GET [] = HighScore 0"
    by (simp add: GET_def findFirstDesc_def)
  from valid negative other missing fetch show ?thesis by blast
qed

theorem submit_and_fetch_witness:
  "POST (Some (JObj [(''score'', JNum 70)])) [30, 50] = (Updated 70 True, [30, 50, 70])
   \<and> POST (Some (JObj [(''score'', JNum 40)])) [30, 50] = (Updated 50 False, [30, 50])
   \<and> POST (Some (JObj [(''score'', JNum (- 1))])) [30, 50]
       = (Failure 400 ''Invalid score'', [30, 50])
   \<and> POST (Some (JObj [(''score'', JStr ''70'')])) [30, 50]
       = (Failure 400 ''Invalid score'', [30, 50])
   \<and> POST (Some (JObj [])) [30, 50] = (Failure 400 ''Invalid score'', [30, 50])"
proof -
  have a: "scoreOf (JObj [(''score'', JNum 70)]) = Value (JNum 70) \<and> (0 :: number) \<le> 70"
    and b: "scoreOf (JObj [(''score'', JNum 40)]) = Value (JNum 40) \<and> (0 :: number) \<le> 40"
    and c: "scoreOf (JObj [(''score'', JNum (- 1))]) = Value (JNum (- 1)) \<and> (- 1 :: number) < 0"
    and d: "scoreOf (JObj [(''score'', JStr ''70'')]) = Value (JStr ''70'')
              \<and> (\<forall>n. JStr ''70'' \<noteq> JNum n)"
    and e: "scoreOf (JObj []) = Undefined"
    by (simp_all add: scoreOf_def)
  have m: "Max (set [30, 50 :: number]) = 50"
    by simp
  from submit_and_fetch [of "JObj [(''score'', JNum 70)]" 70 "[30, 50]"] a m
  have 1: "POST (Some (JObj [(''score'', JNum 70)])) [30, 50] = (Updated 70 True, [30, 50, 70])"
    by simp
  from submit_and_fetch [of "JObj [(''score'', JNum 40)]" 40 "[30, 50]"] b m
  have 2: "POST (Some (JObj [(''score'', JNum 40)])) [30, 50] = (Updated 50 False, [30, 50])"
    by simp
  from submit_and_fetch [of "JObj [(''score'', JNum (- 1))]" "- 1" "[30, 50]"] c
  have 3: "POST (Some (JObj [(''score'', JNum (- 1))])) [30, 50]
       = (Failure 400 ''Invalid score'', [30, 50])"
    by blast
  from submit_and_fetch [of "JObj [(''score'', JStr ''70'')]" _ "[30, 50]" "JStr ''70''"] d
  have 4: "POST (Some (JObj [(''score'', JStr ''70'')])) [30, 50]
       = (Failure 400 ''Invalid score'', [30, 50])"
    by blast
  from submit_and_fetch [of "JObj []" _ "[30, 50]"] e
  have 5: "POST (Some (JObj [])) [30, 50] = (Failure 400 ''Invalid score'', [30, 50])"
    by blast
  from 1 2 3 4 5 show ?thesis by blast
qed

text \<open>
  C10. On the empty table every valid submission, the score 0 included, creates a record
  and reports a new record, while the fetch reports 0 for the empty table.
\<close>

theorem first_submission_is_record:
  "(scoreOf body = Value (JNum s) \<and> 0 \<le> s \<longrightarrow> POST (Some body) [] = (Updated s True, [s]))
   \<and> POST (Some (JObj [(''score'', JNum 0)])) [] = (Updated 0 True, [0])
   \<and> GET [] = HighScore 0"
  by (simp add: POST_def scoreOf_def findFirstDesc_def create_def GET_def)

theorem first_submission_is_record_witness:
  "scoreOf (JObj [(''score'', JNum 7)]) = Value (JNum 7) \<and> (0 :: number) \<le> 7
   \<and> POST (Some (JObj [(''score'', JNum 7)])) [] = (Updated 7 True, [7])"
proof -
  have h: "scoreOf (JObj [(''score'', JNum 7)]) = Value (JNum 7) \<and> (0 :: number) \<le> 7"
    by (simp add: scoreOf_def)
  from first_submission_is_record [of "JObj [(''score'', JNum 7)]" 7] h
  show ?thesis by blast
qed

end
